theory Spec2Isabelle
  imports Main "HOL-Library.Word" "HOL-Library.Sublist"
begin

section \<open>JavaScript strings\<close>

text \<open>
  A JavaScript string is a sequence of 16-bit code units; \<open>slice\<close>, \<open>split\<close>, \<open>trim\<close>
  and \<open>length\<close> all count code units. The degree sign U+00B0 of the scraped temperature
  tokens is one code unit.
\<close>

type_synonym code_unit = "16 word"
type_synonym jsstring = "code_unit list"

definition u16 :: "string \<Rightarrow> jsstring" where
  \<comment> \<open>an ASCII literal of the source as code units\<close>
  "u16 s = map (\<lambda>c. of_nat (of_char c)) s"

definition deg :: code_unit where
  "deg = 0xB0"

definition js_slice :: "jsstring \<Rightarrow> nat \<Rightarrow> nat \<Rightarrow> jsstring" where
  \<comment> \<open>\<open>s.slice(b, e)\<close> for non-negative \<open>b\<close>, \<open>e\<close>\<close>
  "js_slice s b e = take (e - b) (drop b s)"

definition js_slice_from :: "jsstring \<Rightarrow> nat \<Rightarrow> jsstring" where
  \<comment> \<open>\<open>s.slice(b)\<close> for non-negative \<open>b\<close>\<close>
  "js_slice_from s b = drop b s"

definition js_or :: "jsstring \<Rightarrow> jsstring \<Rightarrow> jsstring" where
  \<comment> \<open>\<open>a || b\<close> on strings: the empty string is the only falsy string\<close>
  "js_or a b = (if a = [] then b else a)"

definition js_or_undefined :: "jsstring option \<Rightarrow> jsstring \<Rightarrow> jsstring" where
  \<comment> \<open>\<open>a || b\<close> where \<open>a\<close> is a string or \<open>undefined\<close>\<close>
  "js_or_undefined a b = (case a of None \<Rightarrow> b | Some s \<Rightarrow> js_or s b)"

definition js_index :: "'a list \<Rightarrow> nat \<Rightarrow> 'a option" where
  \<comment> \<open>\<open>arr[i]\<close>: \<open>undefined\<close> (here \<open>None\<close>) out of range\<close>
  "js_index arr i = (if i < length arr then Some (arr ! i) else None)"

definition js_whitespace :: "code_unit \<Rightarrow> bool" where
  \<comment> \<open>WhiteSpace and LineTerminator of ECMAScript, what \<open>trim\<close> strips\<close>
  "js_whitespace c =
     (c \<in> set [0x0009, 0x000A, 0x000B, 0x000C, 0x000D, 0x0020, 0x00A0, 0x1680,
               0x2000, 0x2001, 0x2002, 0x2003, 0x2004, 0x2005, 0x2006, 0x2007,
               0x2008, 0x2009, 0x200A, 0x2028, 0x2029, 0x202F, 0x205F, 0x3000,
               0xFEFF])"

definition js_trim :: "jsstring \<Rightarrow> jsstring" where
  "js_trim s = rev (dropWhile js_whitespace (rev (dropWhile js_whitespace s)))"

function js_split_from :: "jsstring \<Rightarrow> jsstring \<Rightarrow> jsstring \<Rightarrow> jsstring list" where
  "js_split_from sep seg [] = [seg]"
| "js_split_from sep seg (c # cs) =
     (if sep \<noteq> [] \<and> prefix sep (c # cs)
      then seg # js_split_from sep [] (drop (length sep) (c # cs))
      else js_split_from sep (seg @ [c]) cs)"
  by pat_completeness auto
termination
  by (relation "measure (\<lambda>(sep, seg, s). length s)") auto

definition js_split :: "jsstring \<Rightarrow> jsstring \<Rightarrow> jsstring list" where
  \<comment> \<open>\<open>s.split(sep)\<close> for a non-empty separator: \<open>seg\<close> collects the segment being read\<close>
  "js_split s sep = js_split_from sep [] s"

fun js_of_nat :: "nat \<Rightarrow> jsstring" where
  \<comment> \<open>\<open>`${index}`\<close>: the decimal digits of a non-negative integer\<close>
  "js_of_nat n =
     (if n < 10 then [of_nat (48 + n)]
      else js_of_nat (n div 10) @ [of_nat (48 + n mod 10)])"

declare js_of_nat.simps [simp del]

section \<open>The loaded page\<close>

text \<open>
  \<open>cheerio.load\<close> and the selector engine are a library. The page enters the model as
  what its queries see: the text of every element matched by \<open>#wr-location-name-id\<close>,
  and the elements matched by \<open>ol.wr-day-carousel__list li\<close> in document order. Each
  of those list items is the list of its descendants that one of the three nested
  selectors can match: a node records the \<open>id\<close> of an enclosing \<open>a\<close> element, which of
  the three classes it carries, and its text.
\<close>

datatype day_part = Title | Description | Temperature

record node =
  anchor :: jsstring
  part :: day_part
  content :: jsstring

type_synonym day_item = "node list"

record document =
  locationName :: "jsstring list"
  dayCarousel :: "day_item list"

datatype selector = Selector jsstring day_part

definition daylink :: "nat \<Rightarrow> jsstring" where
  \<comment> \<open>the id in \<open>a#daylink-${index}\<close>\<close>
  "daylink index = u16 ''daylink-'' @ js_of_nat index"

definition dayTitle :: "nat \<Rightarrow> selector" where
  \<comment> \<open>\<open>a#daylink-${index} div.wr-day__title\<close>\<close>
  "dayTitle index = Selector (daylink index) Title"

definition forecastDescription :: "nat \<Rightarrow> selector" where
  \<comment> \<open>\<open>a#daylink-${index} div.wr-day__content__weather-type-description--opaque\<close>\<close>
  "forecastDescription index = Selector (daylink index) Description"

definition temperatureSel :: "nat \<Rightarrow> selector" where
  \<comment> \<open>\<open>a#daylink-${index} span.wr-value--temperature--c\<close>\<close>
  "temperatureSel index = Selector (daylink index) Temperature"

fun cheerio_find :: "day_item \<Rightarrow> selector \<Rightarrow> jsstring list" where
  \<comment> \<open>\<open>$elem.find(sel)\<close>: the matched descendants, each by its text\<close>
  "cheerio_find elem (Selector a p) =
     map content (filter (\<lambda>n. anchor n = a \<and> part n = p) elem)"

definition cheerio_text :: "jsstring list \<Rightarrow> jsstring" where
  \<comment> \<open>\<open>.text()\<close>: the texts of the matched elements, concatenated; empty for no match\<close>
  "cheerio_text matched = concat matched"

definition cheerio_map :: "(nat \<Rightarrow> 'a \<Rightarrow> 'b option) \<Rightarrow> 'a list \<Rightarrow> 'b option list" where
  \<comment> \<open>\<open>.map(fn)\<close>: \<open>fn\<close> at each position and element; a \<open>null\<close> result is left out\<close>
  "cheerio_map fn elems =
     filter (\<lambda>v. v \<noteq> None) (map (\<lambda>(i, el). fn i el) (enumerate 0 elems))"

fun not_null :: "'a option list \<Rightarrow> 'a list" where
  \<comment> \<open>\<open>.get().filter(day => day !== null)\<close>\<close>
  "not_null [] = []"
| "not_null (None # vs) = not_null vs"
| "not_null (Some d # vs) = d # not_null vs"

section \<open>Extraction\<close>

record WeatherCondition =
  day :: jsstring
  shortForecast :: jsstring
  temperature :: jsstring
  highTemp :: jsstring
  lowTemp :: jsstring

record CityWeatherReport =
  city :: jsstring
  weekList :: "WeatherCondition list"

definition parseTemperature :: "jsstring \<Rightarrow> nat \<Rightarrow> jsstring \<times> jsstring" where
  \<comment> \<open>the result object \<open>{ highTemp, lowTemp }\<close> as a pair\<close>
  "parseTemperature tempText index =
     (if tempText = [] then ([], [])
      else if index = 0
        then (js_slice tempText 0 3, js_slice tempText 0 3)
        else (js_slice tempText 0 3,
              js_or (js_slice_from tempText 3) (js_slice tempText 0 3)))"

definition extractDayDetails :: "day_item \<Rightarrow> nat \<Rightarrow> WeatherCondition" where
  "extractDayDetails elem index =
     (let dayText = js_trim (cheerio_text (cheerio_find elem (dayTitle index)));
          forecastText = js_trim (cheerio_text (cheerio_find elem (forecastDescription index)));
          temperatureText = js_trim (cheerio_text (cheerio_find elem (temperatureSel index)));
          temps = parseTemperature temperatureText index
      in \<lparr>day = dayText, shortForecast = forecastText, temperature = temperatureText,
          highTemp = fst temps, lowTemp = snd temps\<rparr>)"

definition extractWeeklyForecast :: "document \<Rightarrow> WeatherCondition list" where
  "extractWeeklyForecast doc =
     not_null (cheerio_map
       (\<lambda>index element. if index \<ge> 7 then None else Some (extractDayDetails element index))
       (dayCarousel doc))"

definition extractCityName :: "document \<Rightarrow> jsstring" where
  "extractCityName doc =
     (let fullLocationText = js_trim (cheerio_text (locationName doc))
      in js_or_undefined (js_index (js_split fullLocationText (u16 '' - '')) 0) fullLocationText)"

definition parseWeatherData :: "document \<Rightarrow> CityWeatherReport" where
  "parseWeatherData doc =
     (let cityName = extractCityName doc;
          weekList = extractWeeklyForecast doc
      in \<lparr>city = cityName, weekList = weekList\<rparr>)"

section \<open>The catalog, the transport and the console\<close>

definition BBC_WEATHER_BASE_URL :: string where
  "BBC_WEATHER_BASE_URL = ''https://www.bbc.com/weather/''"

definition CITIES :: "string \<rightharpoonup> string" where
  \<comment> \<open>the own properties of the catalog object; what \<open>Object.prototype\<close> adds to a
      lookup is not modelled\<close>
  "CITIES = map_of
     [(''cairo'', ''360630''),
      (''mecca'', ''104515''),
      (''abuDhabi'', ''292968''),
      (''london'', ''2643743''),
      (''newYork'', ''5128581''),
      (''brasilia'', ''3469058'')]"

definition template_string :: "string option \<Rightarrow> string" where
  \<comment> \<open>\<open>`${v}`\<close> and \<open>s + v\<close> for a string or \<open>undefined\<close>\<close>
  "template_string v = (case v of None \<Rightarrow> ''undefined'' | Some s \<Rightarrow> s)"

datatype js_error =
    AxiosError string
  | TypeError string
  | OtherError string
  | NonError string

fun isAxiosError :: "js_error \<Rightarrow> bool" where
  "isAxiosError (AxiosError m) = True"
| "isAxiosError (TypeError m) = False"
| "isAxiosError (OtherError m) = False"
| "isAxiosError (NonError v) = False"

fun instanceof_Error :: "js_error \<Rightarrow> bool" where
  "instanceof_Error (AxiosError m) = True"
| "instanceof_Error (TypeError m) = True"
| "instanceof_Error (OtherError m) = True"
| "instanceof_Error (NonError v) = False"

fun message :: "js_error \<Rightarrow> string" where
  "message (AxiosError m) = m"
| "message (TypeError m) = m"
| "message (OtherError m) = m"
| "message (NonError v) = v"

datatype console_line =
    Console_error string string
  | Console_error_value string js_error
  | Console_log_report CityWeatherReport
  | Console_log_summary jsstring jsstring jsstring jsstring
  | Console_log_city "jsstring option" jsstring
  | Console_log_high_low jsstring jsstring

fun is_console_log :: "console_line \<Rightarrow> bool" where
  \<comment> \<open>the lines written by \<open>console.log\<close>, as opposed to \<open>console.error\<close>\<close>
  "is_console_log (Console_error label text) = False"
| "is_console_log (Console_error_value label error) = False"
| "is_console_log (Console_log_report report) = True"
| "is_console_log (Console_log_summary c f h l) = True"
| "is_console_log (Console_log_city c h) = True"
| "is_console_log (Console_log_high_low h l) = True"

record world =
  requests :: "string list"
  console :: "console_line list"

text \<open>
  The transport is \<open>axios.get\<close> followed by \<open>cheerio.load\<close> on the response body: for a
  URL it fails with a thrown value or yields the loaded page.
\<close>

type_synonym transport = "string \<Rightarrow> js_error + document"

definition axios_get :: "transport \<Rightarrow> string \<Rightarrow> world \<Rightarrow> (js_error + document) \<times> world" where
  "axios_get t url w = (t url, w\<lparr>requests := requests w @ [url]\<rparr>)"

definition console_write :: "console_line \<Rightarrow> world \<Rightarrow> world" where
  "console_write l w = w\<lparr>console := console w @ [l]\<rparr>"

definition handleError :: "js_error \<Rightarrow> world \<Rightarrow> world" where
  "handleError error w =
     (if isAxiosError error
        then console_write (Console_error ''Network Error:'' (message error)) w
      else if instanceof_Error error
        then console_write (Console_error ''Parsing Error:'' (message error)) w
      else console_write (Console_error_value ''Unknown Error:'' error) w)"

definition fetchCityWeather ::
    "transport \<Rightarrow> string \<Rightarrow> world \<Rightarrow> (js_error + CityWeatherReport) \<times> world" where
  "fetchCityWeather t cityCode w =
     (let url = BBC_WEATHER_BASE_URL @ template_string (CITIES cityCode)
      in case axios_get t url w of
           (Inl error, w1) \<Rightarrow> (Inl error, handleError error w1)
         | (Inr data, w1) \<Rightarrow> (Inr (parseWeatherData data), w1))"

definition logWeatherForCity_try ::
    "transport \<Rightarrow> string \<Rightarrow> world \<Rightarrow> (js_error + unit) \<times> world" where
  \<comment> \<open>the body of the \<open>try\<close> block: \<open>Inl\<close> is what it throws\<close>
  "logWeatherForCity_try t cityCode w =
     (case fetchCityWeather t cityCode w of
        (Inl error, w1) \<Rightarrow> (Inl error, w1)
      | (Inr weatherReport, w1) \<Rightarrow>
          (let w2 = console_write (Console_log_report weatherReport) w1
           in case js_index (weekList weatherReport) 0 of
                None \<Rightarrow>
                  (Inl (TypeError ''Cannot read properties of undefined (reading shortForecast)''),
                   w2)
              | Some firstDay \<Rightarrow>
                  (Inr (),
                   console_write
                     (Console_log_summary (city weatherReport) (shortForecast firstDay)
                        (highTemp firstDay) (lowTemp firstDay)) w2)))"

definition logWeatherForCity ::
    "transport \<Rightarrow> string \<Rightarrow> world \<Rightarrow> (js_error + unit) \<times> world" where
  \<comment> \<open>the promise returned: \<open>Inl\<close> rejected, \<open>Inr\<close> resolved\<close>
  "logWeatherForCity t cityCode w =
     (case logWeatherForCity_try t cityCode w of
        (Inl error, w1) \<Rightarrow>
          (Inr (),
           console_write
             (Console_error_value (''Failed to fetch weather for '' @ cityCode @ '':'') error) w1)
      | (Inr done, w1) \<Rightarrow> (Inr done, w1))"

section \<open>The second implementation: getCairoWeather\<close>

text \<open>
  \<open>TDayDetails\<close> has the fields of \<open>WeatherCondition\<close>. In \<open>TCityData\<close> the city is
  assigned from an array read, which is a string or \<open>undefined\<close>.
\<close>

record TCityData =
  details_city :: "jsstring option"
  details_weekList :: "WeatherCondition list"

definition urlBBC :: string where
  "urlBBC = ''https://www.bbc.com/weather/''"

definition getCairoWeather_day :: "nat \<Rightarrow> day_item \<Rightarrow> WeatherCondition option" where
  \<comment> \<open>the callback given to \<open>.map\<close>\<close>
  "getCairoWeather_day i elem =
     (if i \<ge> 7 then None
      else
        (let tempText = js_trim (cheerio_text (cheerio_find elem (temperatureSel i)));
             dayDetails =
               \<lparr>day = js_trim (cheerio_text (cheerio_find elem (dayTitle i))),
                shortForecast =
                  js_trim (cheerio_text (cheerio_find elem (forecastDescription i))),
                temperature = tempText,
                highTemp = [],
                lowTemp = []\<rparr>
         in if tempText \<noteq> []
            then
              (let withHigh = dayDetails\<lparr>highTemp := js_slice tempText 0 3\<rparr>
               in Some (withHigh\<lparr>lowTemp :=
                    (if i = 0 then highTemp withHigh
                     else js_or (js_slice_from tempText 3) (highTemp withHigh))\<rparr>))
            else Some dayDetails))"

definition getCairoWeather_details :: "document \<Rightarrow> TCityData" where
  \<comment> \<open>\<open>details\<close> as it stands before the two \<open>console.log\<close> calls\<close>
  "getCairoWeather_details doc =
     (let cityAndShortForecast = js_split (js_trim (cheerio_text (locationName doc))) (u16 '' - '');
          weekList = not_null (cheerio_map getCairoWeather_day (dayCarousel doc))
      in \<lparr>details_city = js_index cityAndShortForecast 0, details_weekList = weekList\<rparr>)"

definition getCairoWeather_try ::
    "transport \<Rightarrow> world \<Rightarrow> (js_error + TCityData) \<times> world" where
  "getCairoWeather_try t w =
     (case axios_get t (urlBBC @ template_string (CITIES ''abuDhabi'')) w of
        (Inl error, w1) \<Rightarrow> (Inl error, w1)
      | (Inr data, w1) \<Rightarrow>
          (let details = getCairoWeather_details data
           in case js_index (details_weekList details) 0 of
                None \<Rightarrow>
                  (Inl (TypeError ''Cannot read properties of undefined (reading highTemp)''), w1)
              | Some first \<Rightarrow>
                  (Inr details,
                   console_write (Console_log_high_low (highTemp first) (lowTemp first))
                     (console_write (Console_log_city (details_city details) (highTemp first))
                        w1))))"

definition getCairoWeather :: "transport \<Rightarrow> world \<Rightarrow> TCityData option \<times> world" where
  \<comment> \<open>resolves to the details, or to \<open>undefined\<close> (here \<open>None\<close>) after the \<open>catch\<close>\<close>
  "getCairoWeather t w =
     (case getCairoWeather_try t w of
        (Inl error, w1) \<Rightarrow> (None, console_write (Console_error_value ''ERROR'' error) w1)
      | (Inr details, w1) \<Rightarrow> (Some details, w1))"

section \<open>Fixture pages\<close>

definition fixture_day :: "nat \<Rightarrow> string \<Rightarrow> string \<Rightarrow> jsstring \<Rightarrow> day_item" where
  "fixture_day i title description temp =
     [\<lparr>anchor = daylink i, part = Title, content = u16 title\<rparr>,
      \<lparr>anchor = daylink i, part = Description, content = u16 description\<rparr>,
      \<lparr>anchor = daylink i, part = Temperature, content = temp\<rparr>]"

definition london_page :: document where
  "london_page =
     \<lparr>locationName = [u16 ''London - Forecast''],
      dayCarousel =
        [fixture_day 0 ''Today'' ''Sunny'' (u16 ''18'' @ [deg]),
         fixture_day 1 ''Tue'' ''Light rain'' (u16 ''18'' @ [deg] @ u16 ''11'' @ [deg])]\<rparr>"

definition brasilia_page :: document where
  "brasilia_page = \<lparr>locationName = [u16 ''Brasilia''], dayCarousel = []\<rparr>"

definition ten_day_page :: document where
  "ten_day_page =
     \<lparr>locationName = [u16 ''Cairo - Weather''],
      dayCarousel = map (\<lambda>i. fixture_day i ''Day'' ''Sunny'' (u16 ''30'' @ [deg])) [0..<10]\<rparr>"

definition initial_world :: world where
  "initial_world = \<lparr>requests = [], console = []\<rparr>"

definition refusing :: transport where
  "refusing url = Inl (AxiosError ''connect ECONNREFUSED'')"

definition serving :: "document \<Rightarrow> transport" where
  "serving page url = Inr page"

section \<open>Helper facts\<close>

lemma not_null_filter_map_enumerate:
  "not_null (filter (\<lambda>v. v \<noteq> None)
      (map (\<lambda>(i, el). if 7 \<le> i then None else Some (g el i)) (enumerate n xs)))
   = map (\<lambda>(i, el). g el i) (enumerate n (take (7 - n) xs))"
proof (induction xs arbitrary: n)
  case Nil
  then show ?case by simp
next
  case (Cons x xs)
  show ?case
  proof (cases "7 \<le> n")
    case True
    then show ?thesis using Cons.IH [of "Suc n"] by simp
  next
    case False
    then have "7 - n = Suc (7 - Suc n)" by simp
    then show ?thesis using False Cons.IH [of "Suc n"] by simp
  qed
qed

lemma extractWeeklyForecast_eq:
  "extractWeeklyForecast doc =
     map (\<lambda>(i, el). extractDayDetails el i) (enumerate 0 (take 7 (dayCarousel doc)))"
  unfolding extractWeeklyForecast_def cheerio_map_def
  using not_null_filter_map_enumerate [of extractDayDetails 0 "dayCarousel doc"] by simp

lemma last_dropWhile: "dropWhile P xs \<noteq> [] \<Longrightarrow> last (dropWhile P xs) = last xs"
  by (induction xs) auto

lemma js_trim_head: "js_trim s \<noteq> [] \<Longrightarrow> \<not> js_whitespace (hd (js_trim s))"
proof -
  assume ne: "js_trim s \<noteq> []"
  let ?t = "dropWhile js_whitespace s"
  from ne have d: "dropWhile js_whitespace (rev ?t) \<noteq> []" by (simp add: js_trim_def)
  have t: "?t \<noteq> []"
    using d by (metis dropWhile.simps(1) rev.simps(1))
  have "hd (js_trim s) = last (dropWhile js_whitespace (rev ?t))"
    using d by (simp add: js_trim_def hd_rev)
  also have "\<dots> = last (rev ?t)" using d by (rule last_dropWhile)
  also have "\<dots> = hd ?t" using t by (simp add: last_rev)
  finally show ?thesis using t hd_dropWhile [of js_whitespace s] by simp
qed

lemma js_split_from_nonempty: "js_split_from sep seg s \<noteq> []"
  by (induction sep seg s rule: js_split_from.induct) auto

lemma js_split_from_hd_seg: "seg \<noteq> [] \<Longrightarrow> hd (js_split_from sep seg s) \<noteq> []"
  by (induction sep seg s rule: js_split_from.induct) auto

lemma js_split_hd_nonempty:
  "s \<noteq> [] \<Longrightarrow> \<not> prefix sep s \<Longrightarrow> hd (js_split s sep) \<noteq> []"
  by (cases s) (auto simp: js_split_def js_split_from_hd_seg)

lemma js_split_from_no_sep:
  "\<not> sublist sep s \<Longrightarrow> js_split_from sep seg s = [seg @ s]"
  by (induction sep seg s rule: js_split_from.induct) (auto simp: sublist_Cons_right)

lemma js_of_nat_digit: "n < 10 \<Longrightarrow> js_of_nat n = [of_nat (48 + n)]"
  by (simp add: js_of_nat.simps)

lemmas page_eval = parseWeatherData_def extractWeeklyForecast_eq fixture_day_def
  extractDayDetails_def dayTitle_def forecastDescription_def temperatureSel_def daylink_def
  js_of_nat_digit cheerio_text_def js_trim_def js_whitespace_def parseTemperature_def
  js_slice_def js_slice_from_def js_or_def u16_def deg_def Let_def

lemma london_weekList:
  "weekList (parseWeatherData london_page) =
     [\<lparr>day = u16 ''Today'', shortForecast = u16 ''Sunny'', temperature = u16 ''18'' @ [deg],
        highTemp = u16 ''18'' @ [deg], lowTemp = u16 ''18'' @ [deg]\<rparr>,
      \<lparr>day = u16 ''Tue'', shortForecast = u16 ''Light rain'',
        temperature = u16 ''18'' @ [deg] @ u16 ''11'' @ [deg],
        highTemp = u16 ''18'' @ [deg], lowTemp = u16 ''11'' @ [deg]\<rparr>]"
  by (simp add: london_page_def page_eval)

lemma extractDayDetails_temps:
  "highTemp (extractDayDetails el i) = take 3 (temperature (extractDayDetails el i))
   \<and> lowTemp (extractDayDetails el i)
       = snd (parseTemperature (temperature (extractDayDetails el i)) i)"
  by (simp add: extractDayDetails_def Let_def parseTemperature_def js_slice_def)

lemma weekList_entry:
  "e \<in> set (weekList (parseWeatherData doc)) \<Longrightarrow> \<exists>el i. e = extractDayDetails el i"
  by (auto simp: parseWeatherData_def extractWeeklyForecast_eq)

lemma sep_eval: "u16 '' - '' = [0x20, 0x2D, 0x20]"
  by (simp add: u16_def)

lemma js_trim_not_sep_prefix: "js_trim s \<noteq> [] \<Longrightarrow> \<not> prefix (u16 '' - '') (js_trim s)"
proof
  assume ne: "js_trim s \<noteq> []" and p: "prefix (u16 '' - '') (js_trim s)"
  from p have "hd (js_trim s) = 0x20"
    by (auto simp: sep_eval prefix_def)
  moreover have "js_whitespace 0x20" by (simp add: js_whitespace_def)
  ultimately show False using js_trim_head [OF ne] by simp
qed

lemma js_index_split_0: "js_index (js_split s sep) 0 = Some (hd (js_split s sep))"
  using js_split_from_nonempty [of sep "[]" s]
  by (cases "js_split_from sep [] s") (simp_all add: js_index_def js_split_def)

lemma extractCityName_first_segment:
  "extractCityName doc = hd (js_split (js_trim (cheerio_text (locationName doc))) (u16 '' - ''))"
proof (cases "js_trim (cheerio_text (locationName doc)) = []")
  case True
  then show ?thesis
    by (simp add: extractCityName_def Let_def js_index_def js_or_undefined_def js_or_def
        js_split_def)
next
  case False
  then have "hd (js_split (js_trim (cheerio_text (locationName doc))) (u16 '' - '')) \<noteq> []"
    by (intro js_split_hd_nonempty js_trim_not_sep_prefix)
  then show ?thesis
    by (simp add: extractCityName_def Let_def js_index_split_0 js_or_undefined_def js_or_def)
qed

lemma not_sublist_shorter: "length ys < length xs \<Longrightarrow> \<not> sublist xs ys"
  by (auto simp: sublist_def)

lemma js_split_from_first_occurrence:
  "sep \<noteq> [] \<Longrightarrow> sublist sep s \<Longrightarrow>
   \<exists>a b. s = a @ sep @ b \<and> \<not> sublist sep (a @ butlast sep)
         \<and> hd (js_split_from sep seg s) = seg @ a"
proof (induction sep seg s rule: js_split_from.induct)
  case (1 sep seg)
  then show ?case by simp
next
  case (2 sep seg c cs)
  show ?case
  proof (cases "prefix sep (c # cs)")
    case True
    then obtain b where b: "c # cs = sep @ b" by (auto simp: prefix_def)
    have "\<not> sublist sep ([] @ butlast sep)"
      using "2.prems"(1) by (simp add: not_sublist_shorter)
    moreover have "hd (js_split_from sep seg (c # cs)) = seg @ []"
      using True "2.prems"(1) by simp
    ultimately show ?thesis using b by (metis append_Nil)
  next
    case False
    with "2.prems"(2) have sub: "sublist sep cs"
      by (simp add: sublist_Cons_right)
    from "2.IH"(2) [OF _ "2.prems"(1) sub] False
    obtain a b where ab: "cs = a @ sep @ b" "\<not> sublist sep (a @ butlast sep)"
      "hd (js_split_from sep (seg @ [c]) cs) = (seg @ [c]) @ a"
      by auto
    have np: "\<not> prefix sep ((c # a) @ butlast sep)"
    proof
      assume "prefix sep ((c # a) @ butlast sep)"
      moreover have "prefix ((c # a) @ butlast sep) (c # cs)"
        by (simp add: ab(1) prefixeq_butlast)
      ultimately have "prefix sep (c # cs)" by (rule prefix_order.trans)
      with False show False by contradiction
    qed
    have "\<not> sublist sep ((c # a) @ butlast sep)"
      using np ab(2) by (simp add: sublist_Cons_right)
    moreover have "c # cs = (c # a) @ sep @ b" by (simp add: ab(1))
    moreover have "hd (js_split_from sep seg (c # cs)) = seg @ (c # a)"
      using False ab(3) by simp
    ultimately show ?thesis by blast
  qed
qed

lemma CITIES_dom:
  "dom CITIES = {''cairo'', ''mecca'', ''abuDhabi'', ''london'', ''newYork'', ''brasilia''}"
  by (auto simp: CITIES_def split: if_splits)

lemma CITIES_nonempty: "CITIES c = Some code \<Longrightarrow> code \<noteq> []"
  by (auto simp: CITIES_def split: if_splits)

lemma fetchCityWeather_requests:
  "requests (snd (fetchCityWeather t c w))
     = requests w @ [BBC_WEATHER_BASE_URL @ template_string (CITIES c)]"
  by (simp add: fetchCityWeather_def axios_get_def handleError_def console_write_def Let_def
      split: sum.splits)

lemma fetchCityWeather_fails:
  "t (BBC_WEATHER_BASE_URL @ template_string (CITIES c)) = Inl e \<Longrightarrow>
   fetchCityWeather t c w =
     (Inl e, handleError e (w\<lparr>requests := requests w @ [BBC_WEATHER_BASE_URL @ template_string (CITIES c)]\<rparr>))"
  by (simp add: fetchCityWeather_def axios_get_def Let_def)

lemma fetchCityWeather_succeeds:
  "t (BBC_WEATHER_BASE_URL @ template_string (CITIES c)) = Inr data \<Longrightarrow>
   fetchCityWeather t c w =
     (Inr (parseWeatherData data),
      w\<lparr>requests := requests w @ [BBC_WEATHER_BASE_URL @ template_string (CITIES c)]\<rparr>)"
  by (simp add: fetchCityWeather_def axios_get_def Let_def)

lemma fetchCityWeather_cases:
  "(\<exists>e. t (BBC_WEATHER_BASE_URL @ template_string (CITIES c)) = Inl e \<and> fst (fetchCityWeather t c w) = Inl e)
   \<or> (\<exists>data. t (BBC_WEATHER_BASE_URL @ template_string (CITIES c)) = Inr data
        \<and> fst (fetchCityWeather t c w) = Inr (parseWeatherData data))"
  by (cases "t (BBC_WEATHER_BASE_URL @ template_string (CITIES c))")
     (simp_all add: fetchCityWeather_fails fetchCityWeather_succeeds)

lemma js_trim_Nil: "js_trim [] = []"
  by (simp add: js_trim_def)

lemma daylink_digit: "i < 10 \<Longrightarrow> daylink i = u16 ''daylink-'' @ [of_nat (48 + i)]"
  by (simp add: daylink_def js_of_nat_digit)

lemma logWeatherForCity_resolves: "fst (logWeatherForCity t c w) = Inr ()"
  by (simp add: logWeatherForCity_def split: prod.splits sum.splits)

lemma logWeatherForCity_fetch_fails:
  "t (BBC_WEATHER_BASE_URL @ template_string (CITIES c)) = Inl e \<Longrightarrow>
   logWeatherForCity t c w =
     (Inr (),
      console_write (Console_error_value (''Failed to fetch weather for '' @ c @ '':'') e)
        (handleError e
          (w\<lparr>requests := requests w @ [BBC_WEATHER_BASE_URL @ template_string (CITIES c)]\<rparr>)))"
  by (simp add: logWeatherForCity_def logWeatherForCity_try_def fetchCityWeather_fails)

lemma handleError_no_log:
  "filter is_console_log (console (handleError e w)) = filter is_console_log (console w)"
  by (simp add: handleError_def console_write_def)

lemma getCairoWeather_day_eq:
  "getCairoWeather_day i elem = (if 7 \<le> i then None else Some (extractDayDetails elem i))"
  by (simp add: getCairoWeather_day_def extractDayDetails_def parseTemperature_def Let_def)

lemma getCairoWeather_details_eq:
  "getCairoWeather_details doc =
     \<lparr>details_city = Some (city (parseWeatherData doc)),
      details_weekList = weekList (parseWeatherData doc)\<rparr>"
proof -
  have "getCairoWeather_day = (\<lambda>i elem. if 7 \<le> i then None else Some (extractDayDetails elem i))"
    by (intro ext) (rule getCairoWeather_day_eq)
  then have "not_null (cheerio_map getCairoWeather_day (dayCarousel doc)) = extractWeeklyForecast doc"
    by (simp add: extractWeeklyForecast_def)
  then show ?thesis
    by (simp add: getCairoWeather_details_def Let_def parseWeatherData_def js_index_split_0
        extractCityName_first_segment)
qed

lemma getCairoWeather_Some:
  "fst (getCairoWeather t w) = Some d \<Longrightarrow>
   \<exists>data. t (urlBBC @ ''292968'') = Inr data \<and> d = getCairoWeather_details data
      \<and> details_weekList d \<noteq> []"
  by (auto simp: getCairoWeather_def getCairoWeather_try_def axios_get_def Let_def CITIES_def
      template_string_def js_index_def split: prod.splits sum.splits option.splits if_splits)

lemma london_city: "city (parseWeatherData london_page) = u16 ''London''"
  by (simp add: parseWeatherData_def extractCityName_first_segment london_page_def
      cheerio_text_def js_trim_def js_whitespace_def js_split_def u16_def)

lemma empty_carousel_weekList: "dayCarousel data = [] \<Longrightarrow> weekList (parseWeatherData data) = []"
  by (simp add: parseWeatherData_def extractWeeklyForecast_eq)

section \<open>Temperature decomposition\<close>

lemma parseTemperature_empty: "parseTemperature [] i = ([], [])"
  by (simp add: parseTemperature_def)

lemma parseTemperature_high: "fst (parseTemperature t i) = take 3 t"
  by (simp add: parseTemperature_def js_slice_def)

lemma parseTemperature_today: "snd (parseTemperature t 0) = take 3 t"
  by (simp add: parseTemperature_def js_slice_def)

lemma parseTemperature_later:
  "0 < i \<Longrightarrow> t \<noteq> [] \<Longrightarrow>
   snd (parseTemperature t i) = (if drop 3 t \<noteq> [] then drop 3 t else take 3 t)"
  by (simp add: parseTemperature_def js_slice_def js_slice_from_def js_or_def)

lemma parseTemperature_low_nonempty: "t \<noteq> [] \<Longrightarrow> snd (parseTemperature t i) \<noteq> []"
  by (simp add: parseTemperature_def js_slice_def js_slice_from_def js_or_def)


text \<open>
  C1. The decomposition of a temperature token \<open>t\<close> at day index \<open>i\<close>: both fields are
  empty for the empty token; otherwise \<open>highTemp\<close> is the first \<open>min 3 (length t)\<close> code
  units of \<open>t\<close>, \<open>lowTemp\<close> repeats it at index 0, and at a later index \<open>lowTemp\<close> is what
  follows the first three code units when that is non-empty and \<open>highTemp\<close> otherwise.
  The token 18\<degree>11\<degree> gives 18\<degree> twice at index 0, and 18\<degree> and 11\<degree> at index 2; the
  token 18\<degree> gives 18\<degree> twice at index 2. The entry at index 0 of an extracted report
  has equal \<open>highTemp\<close> and \<open>lowTemp\<close>.
\<close>

theorem temperature_decomposition:
  "parseTemperature t i =
     (if t = [] then ([], [])
      else (take (min 3 (length t)) t,
            if i = 0 then take (min 3 (length t)) t
            else if drop 3 t \<noteq> [] then drop 3 t
            else take (min 3 (length t)) t))
   \<and> parseTemperature (u16 ''18'' @ [deg] @ u16 ''11'' @ [deg]) 0
       = (u16 ''18'' @ [deg], u16 ''18'' @ [deg])
   \<and> parseTemperature (u16 ''18'' @ [deg] @ u16 ''11'' @ [deg]) 2
       = (u16 ''18'' @ [deg], u16 ''11'' @ [deg])
   \<and> parseTemperature (u16 ''18'' @ [deg]) 2 = (u16 ''18'' @ [deg], u16 ''18'' @ [deg])
   \<and> (js_index (weekList (parseWeatherData doc)) 0 = Some e \<longrightarrow> highTemp e = lowTemp e)"
proof -
  have general: "parseTemperature t i =
     (if t = [] then ([], [])
      else (take (min 3 (length t)) t,
            if i = 0 then take (min 3 (length t)) t
            else if drop 3 t \<noteq> [] then drop 3 t
            else take (min 3 (length t)) t))"
    by (simp add: parseTemperature_def js_slice_def js_slice_from_def js_or_def min_def)
  have ex1: "parseTemperature (u16 ''18'' @ [deg] @ u16 ''11'' @ [deg]) 0
       = (u16 ''18'' @ [deg], u16 ''18'' @ [deg])"
    by (simp add: parseTemperature_def js_slice_def u16_def)
  have ex2: "parseTemperature (u16 ''18'' @ [deg] @ u16 ''11'' @ [deg]) 2
       = (u16 ''18'' @ [deg], u16 ''11'' @ [deg])"
    by (simp add: parseTemperature_def js_slice_def js_slice_from_def js_or_def u16_def)
  have ex3: "parseTemperature (u16 ''18'' @ [deg]) 2 = (u16 ''18'' @ [deg], u16 ''18'' @ [deg])"
    by (simp add: parseTemperature_def js_slice_def js_slice_from_def js_or_def u16_def)
  have first: "highTemp e = lowTemp e"
    if "js_index (weekList (parseWeatherData doc)) 0 = Some e"
  proof -
    from that obtain el where "e = extractDayDetails el 0"
      by (cases "dayCarousel doc")
        (auto simp: js_index_def parseWeatherData_def extractWeeklyForecast_eq
              split: if_splits)
    then show ?thesis
      by (simp add: extractDayDetails_def Let_def parseTemperature_high parseTemperature_today)
  qed
  from general ex1 ex2 ex3 first show ?thesis by blast
qed

theorem temperature_decomposition_witness:
  "js_index (weekList (parseWeatherData london_page)) 0 =
     Some \<lparr>day = u16 ''Today'', shortForecast = u16 ''Sunny'', temperature = u16 ''18'' @ [deg],
        highTemp = u16 ''18'' @ [deg], lowTemp = u16 ''18'' @ [deg]\<rparr>
   \<and> highTemp \<lparr>day = u16 ''Today'', shortForecast = u16 ''Sunny'',
        temperature = u16 ''18'' @ [deg],
        highTemp = u16 ''18'' @ [deg], lowTemp = u16 ''18'' @ [deg]\<rparr>
     = lowTemp \<lparr>day = u16 ''Today'', shortForecast = u16 ''Sunny'',
        temperature = u16 ''18'' @ [deg],
        highTemp = u16 ''18'' @ [deg], lowTemp = u16 ''18'' @ [deg]\<rparr>
   \<and> parseTemperature (u16 ''7'' @ [deg]) 4 = (u16 ''7'' @ [deg], u16 ''7'' @ [deg])"
  using temperature_decomposition [of "u16 ''7'' @ [deg]" 4 london_page
     "\<lparr>day = u16 ''Today'', shortForecast = u16 ''Sunny'', temperature = u16 ''18'' @ [deg],
        highTemp = u16 ''18'' @ [deg], lowTemp = u16 ''18'' @ [deg]\<rparr>"]
  by (simp add: london_weekList js_index_def u16_def)

section \<open>Truncation to seven days\<close>

text \<open>
  C2. The \<open>weekList\<close> of an extracted report holds the entries of the first seven day
  items, in document order, each extracted at its own position; its length is the
  smaller of 7 and the number of day items, so never more than 7; the items from
  position 7 on have no influence on the report. A page with ten day items gives seven
  entries.
\<close>

theorem week_list_truncated:
  "weekList (parseWeatherData doc) =
     map (\<lambda>(i, el). extractDayDetails el i) (enumerate 0 (take 7 (dayCarousel doc)))
   \<and> length (weekList (parseWeatherData doc)) = min 7 (length (dayCarousel doc))
   \<and> length (weekList (parseWeatherData doc)) \<le> 7
   \<and> weekList (parseWeatherData (doc\<lparr>dayCarousel := take 7 (dayCarousel doc)\<rparr>))
       = weekList (parseWeatherData doc)
   \<and> length (dayCarousel ten_day_page) = 10
   \<and> length (weekList (parseWeatherData ten_day_page)) = 7"
proof -
  have eq: "weekList (parseWeatherData d) =
     map (\<lambda>(i, el). extractDayDetails el i) (enumerate 0 (take 7 (dayCarousel d)))" for d
    by (simp add: parseWeatherData_def extractWeeklyForecast_eq)
  have len: "length (weekList (parseWeatherData d)) = min 7 (length (dayCarousel d))" for d
    by (simp add: eq min.commute)
  have ten: "length (dayCarousel ten_day_page) = 10"
    by (simp add: ten_day_page_def)
  have cut: "weekList (parseWeatherData (doc\<lparr>dayCarousel := take 7 (dayCarousel doc)\<rparr>))
       = weekList (parseWeatherData doc)"
    by (simp add: eq)
  show ?thesis using eq [of doc] len [of doc] len [of ten_day_page] ten cut by simp
qed

section \<open>Derived temperature fields of every entry\<close>

text \<open>
  C9. In every entry of the \<open>weekList\<close> of an extracted report, \<open>highTemp\<close> is the first
  \<open>min 3 (length temperature)\<close> code units of \<open>temperature\<close>, hence a prefix of it and
  empty exactly when \<open>temperature\<close> is empty, and \<open>lowTemp\<close> is non-empty whenever
  \<open>temperature\<close> is non-empty.
\<close>

theorem entry_temperature_fields:
  "\<forall>e \<in> set (weekList (parseWeatherData doc)).
     highTemp e = take (min 3 (length (temperature e))) (temperature e)
     \<and> prefix (highTemp e) (temperature e)
     \<and> (highTemp e = [] \<longleftrightarrow> temperature e = [])
     \<and> (temperature e \<noteq> [] \<longrightarrow> lowTemp e \<noteq> [])"
proof
  fix e assume "e \<in> set (weekList (parseWeatherData doc))"
  then obtain el i where e: "e = extractDayDetails el i"
    using weekList_entry by blast
  have h: "highTemp e = take 3 (temperature e)"
    and l: "lowTemp e = snd (parseTemperature (temperature e) i)"
    using extractDayDetails_temps [of el i] by (simp_all add: e)
  have 1: "highTemp e = take (min 3 (length (temperature e))) (temperature e)"
    by (simp add: h min_def)
  have 2: "prefix (highTemp e) (temperature e)"
    by (simp add: h take_is_prefix)
  have 3: "highTemp e = [] \<longleftrightarrow> temperature e = []"
    by (simp add: h)
  have 4: "temperature e \<noteq> [] \<longrightarrow> lowTemp e \<noteq> []"
    by (simp add: l parseTemperature_low_nonempty)
  from 1 2 3 4 show "highTemp e = take (min 3 (length (temperature e))) (temperature e)
     \<and> prefix (highTemp e) (temperature e)
     \<and> (highTemp e = [] \<longleftrightarrow> temperature e = [])
     \<and> (temperature e \<noteq> [] \<longrightarrow> lowTemp e \<noteq> [])" by blast
qed

theorem entry_temperature_fields_witness:
  "weekList (parseWeatherData london_page) \<noteq> []
   \<and> list_all
        (\<lambda>e. highTemp e = take (min 3 (length (temperature e))) (temperature e)
           \<and> prefix (highTemp e) (temperature e)
           \<and> (highTemp e = [] \<longleftrightarrow> temperature e = [])
           \<and> (temperature e \<noteq> [] \<longrightarrow> lowTemp e \<noteq> []))
        (weekList (parseWeatherData london_page))"
  using entry_temperature_fields [of london_page]
  by (simp add: london_weekList u16_def list_all_iff)

section \<open>City name\<close>

text \<open>
  C3. The city of an extracted report is the first segment of the trimmed text of the
  location-name element split on the separator \<open>" - "\<close>: when the separator occurs,
  the trimmed text is the city, the separator and a rest, with no earlier occurrence of
  the separator; when it does not occur, the city is the whole trimmed text; when no
  element matches, the city is empty. The text London - Forecast gives London, the text
  Brasilia gives Brasilia.
\<close>

theorem city_name_first_segment:
  "js_index (js_split (js_trim (cheerio_text (locationName doc))) (u16 '' - '')) 0
     = Some (city (parseWeatherData doc))
   \<and> (if sublist (u16 '' - '') (js_trim (cheerio_text (locationName doc)))
      then \<exists>rest. js_trim (cheerio_text (locationName doc))
                    = city (parseWeatherData doc) @ u16 '' - '' @ rest
                 \<and> \<not> sublist (u16 '' - '') (city (parseWeatherData doc) @ butlast (u16 '' - ''))
      else city (parseWeatherData doc) = js_trim (cheerio_text (locationName doc)))
   \<and> city (parseWeatherData (doc\<lparr>locationName := []\<rparr>)) = []
   \<and> city (parseWeatherData london_page) = u16 ''London''
   \<and> city (parseWeatherData brasilia_page) = u16 ''Brasilia''"
proof -
  let ?T = "js_trim (cheerio_text (locationName doc))"
  let ?sep = "u16 '' - ''"
  have c: "city (parseWeatherData d) = hd (js_split (js_trim (cheerio_text (locationName d))) ?sep)" for d
    by (simp add: parseWeatherData_def Let_def extractCityName_first_segment)
  have 1: "js_index (js_split ?T ?sep) 0 = Some (city (parseWeatherData doc))"
    by (simp add: c js_index_split_0)
  have sne: "?sep \<noteq> []" by (simp add: u16_def)
  have 2: "\<exists>rest. ?T = city (parseWeatherData doc) @ ?sep @ rest
                 \<and> \<not> sublist ?sep (city (parseWeatherData doc) @ butlast ?sep)"
    if "sublist ?sep ?T"
    using js_split_from_first_occurrence [OF sne that, of "[]"]
    by (auto simp: c js_split_def)
  have 3: "city (parseWeatherData doc) = ?T" if "\<not> sublist ?sep ?T"
    using js_split_from_no_sep [OF that, of "[]"] by (simp add: c js_split_def)
  have 4: "city (parseWeatherData (doc\<lparr>locationName := []\<rparr>)) = []"
    by (simp add: c cheerio_text_def js_trim_def js_split_def)
  have 5: "city (parseWeatherData london_page) = u16 ''London''"
    by (simp add: c london_page_def cheerio_text_def js_trim_def js_whitespace_def js_split_def u16_def)
  have 6: "city (parseWeatherData brasilia_page) = u16 ''Brasilia''"
    by (simp add: c brasilia_page_def cheerio_text_def js_trim_def js_whitespace_def js_split_def u16_def)
  show ?thesis using 1 2 3 4 5 6 by simp
qed

section \<open>Catalog lookup\<close>

text \<open>
  C5, as the code has it. The catalog has exactly six keys; for each of them the lookup
  gives a non-empty location code and the one request issued goes to the base URL
  followed by that code. \<open>fetchCityWeather\<close> makes no check of its own (identifiers
  outside the catalog are excluded by the static type of its parameter only): whatever
  the identifier, exactly one request reaches the transport.
\<close>

theorem catalog_lookup_and_request:
  "dom CITIES = {''cairo'', ''mecca'', ''abuDhabi'', ''london'', ''newYork'', ''brasilia''}
   \<and> (c \<in> dom CITIES \<longrightarrow>
        (\<exists>code. CITIES c = Some code \<and> code \<noteq> []
           \<and> requests (snd (fetchCityWeather t c w)) = requests w @ [BBC_WEATHER_BASE_URL @ code]))
   \<and> length (requests (snd (fetchCityWeather t c' w))) = length (requests w) + 1"
proof -
  have "\<exists>code. CITIES c = Some code \<and> code \<noteq> []
           \<and> requests (snd (fetchCityWeather t c w)) = requests w @ [BBC_WEATHER_BASE_URL @ code]"
    if "c \<in> dom CITIES"
  proof -
    from that obtain code where code: "CITIES c = Some code" by auto
    then show ?thesis
      using CITIES_nonempty [OF code] fetchCityWeather_requests [of t c w]
      by (simp add: template_string_def)
  qed
  then show ?thesis
    using CITIES_dom fetchCityWeather_requests [of t c' w] by simp
qed

theorem catalog_lookup_and_request_witness:
  "''london'' \<in> dom CITIES
   \<and> CITIES ''london'' = Some ''2643743''
   \<and> requests (snd (fetchCityWeather refusing ''london'' initial_world))
       = [''https://www.bbc.com/weather/2643743'']"
  using catalog_lookup_and_request [of "''london''" refusing initial_world "''london''"]
  by (simp add: CITIES_def initial_world_def BBC_WEATHER_BASE_URL_def)

text \<open>
  C5 as stated fails: for the identifier \<open>paris\<close>, which is no key of the catalog, the
  lookup is \<open>undefined\<close>, a request is issued to the URL ending in \<open>undefined\<close>, and with
  a transport that answers the call returns a report.
\<close>

theorem unknown_city_is_requested:
  "CITIES ''paris'' = None
   \<and> fetchCityWeather (serving brasilia_page) ''paris'' initial_world
       = (Inr (parseWeatherData brasilia_page),
          \<lparr>requests = [''https://www.bbc.com/weather/undefined''], console = []\<rparr>)"
  by (simp add: CITIES_def fetchCityWeather_def axios_get_def Let_def serving_def
      initial_world_def BBC_WEATHER_BASE_URL_def template_string_def)

section \<open>Transport failure\<close>

text \<open>
  C6. When the transport fails with an axios error, \<open>fetchCityWeather\<close> logs its message
  under the label \<open>Network Error:\<close>, throws the same error to its caller, returns no
  report, and has issued exactly one request.
\<close>

theorem transport_failure_rethrown:
  "t (BBC_WEATHER_BASE_URL @ template_string (CITIES c)) = Inl e \<Longrightarrow> isAxiosError e \<Longrightarrow>
   fetchCityWeather t c w =
     (Inl e,
      w\<lparr>requests := requests w @ [BBC_WEATHER_BASE_URL @ template_string (CITIES c)],
        console := console w @ [Console_error ''Network Error:'' (message e)]\<rparr>)"
  by (simp add: fetchCityWeather_fails handleError_def console_write_def)

theorem transport_failure_rethrown_witness:
  "refusing (BBC_WEATHER_BASE_URL @ template_string (CITIES ''london''))
     = Inl (AxiosError ''connect ECONNREFUSED'')
   \<and> isAxiosError (AxiosError ''connect ECONNREFUSED'')
   \<and> fetchCityWeather refusing ''london'' initial_world =
     (Inl (AxiosError ''connect ECONNREFUSED''),
      \<lparr>requests = [''https://www.bbc.com/weather/2643743''],
        console = [Console_error ''Network Error:'' ''connect ECONNREFUSED'']\<rparr>)"
  using transport_failure_rethrown [of refusing "''london''" "AxiosError ''connect ECONNREFUSED''"
      initial_world]
  by (simp add: refusing_def initial_world_def CITIES_def BBC_WEATHER_BASE_URL_def
      template_string_def)

section \<open>Missing anchors\<close>

text \<open>
  C4. Extraction is a total function of the loaded page and raises nothing: with no
  location-name element the city is the empty string; a day item with no title,
  description or temperature element under the anchor of its position gives the empty
  string in the field concerned, and with it empty \<open>highTemp\<close> and \<open>lowTemp\<close>; and whenever
  the transport answers, \<open>fetchCityWeather\<close> returns the extracted report.
\<close>

theorem missing_anchors_give_empty_fields:
  "city (parseWeatherData (doc\<lparr>locationName := []\<rparr>)) = []
   \<and> (cheerio_find elem (dayTitle i) = [] \<longrightarrow> day (extractDayDetails elem i) = [])
   \<and> (cheerio_find elem (forecastDescription i) = []
        \<longrightarrow> shortForecast (extractDayDetails elem i) = [])
   \<and> (cheerio_find elem (temperatureSel i) = []
        \<longrightarrow> temperature (extractDayDetails elem i) = []
          \<and> highTemp (extractDayDetails elem i) = []
          \<and> lowTemp (extractDayDetails elem i) = [])
   \<and> (t (BBC_WEATHER_BASE_URL @ template_string (CITIES c)) = Inr data
        \<longrightarrow> fst (fetchCityWeather t c w) = Inr (parseWeatherData data))"
proof -
  have 1: "city (parseWeatherData (doc\<lparr>locationName := []\<rparr>)) = []"
    by (simp add: parseWeatherData_def extractCityName_first_segment cheerio_text_def
        js_trim_Nil js_split_def)
  have 2: "day (extractDayDetails elem i) = []"
    if "cheerio_find elem (dayTitle i) = []"
    using that by (simp add: extractDayDetails_def Let_def cheerio_text_def js_trim_Nil)
  have 3: "shortForecast (extractDayDetails elem i) = []"
    if "cheerio_find elem (forecastDescription i) = []"
    using that by (simp add: extractDayDetails_def Let_def cheerio_text_def js_trim_Nil)
  have 4: "temperature (extractDayDetails elem i) = []
          \<and> highTemp (extractDayDetails elem i) = []
          \<and> lowTemp (extractDayDetails elem i) = []"
    if "cheerio_find elem (temperatureSel i) = []"
    using that
    by (simp add: extractDayDetails_def Let_def cheerio_text_def js_trim_Nil
        parseTemperature_empty)
  have 5: "fst (fetchCityWeather t c w) = Inr (parseWeatherData data)"
    if "t (BBC_WEATHER_BASE_URL @ template_string (CITIES c)) = Inr data"
    using that fetchCityWeather_succeeds [of t c data w] by simp
  from 1 2 3 4 5 show ?thesis by blast
qed

theorem missing_anchors_give_empty_fields_witness:
  "cheerio_find (fixture_day 3 ''Thu'' ''Sunny'' (u16 ''18'' @ [deg])) (dayTitle 0) = []
   \<and> cheerio_find (fixture_day 3 ''Thu'' ''Sunny'' (u16 ''18'' @ [deg])) (forecastDescription 0)
       = []
   \<and> cheerio_find (fixture_day 3 ''Thu'' ''Sunny'' (u16 ''18'' @ [deg])) (temperatureSel 0) = []
   \<and> extractDayDetails (fixture_day 3 ''Thu'' ''Sunny'' (u16 ''18'' @ [deg])) 0
       = \<lparr>day = [], shortForecast = [], temperature = [], highTemp = [], lowTemp = []\<rparr>
   \<and> serving (london_page\<lparr>locationName := []\<rparr>)
        (BBC_WEATHER_BASE_URL @ template_string (CITIES ''london''))
       = Inr (london_page\<lparr>locationName := []\<rparr>)
   \<and> (\<exists>r. fst (fetchCityWeather (serving (london_page\<lparr>locationName := []\<rparr>)) ''london''
                initial_world) = Inr r \<and> city r = [])"
  using missing_anchors_give_empty_fields [of london_page
      "fixture_day 3 ''Thu'' ''Sunny'' (u16 ''18'' @ [deg])" 0
      "serving (london_page\<lparr>locationName := []\<rparr>)" "''london''"
      "london_page\<lparr>locationName := []\<rparr>" initial_world]
  by (simp add: fixture_day_def dayTitle_def forecastDescription_def temperatureSel_def
      daylink_digit u16_def serving_def WeatherCondition.equality)

section \<open>The reporting utility on a failed fetch\<close>

text \<open>
  C7, as the code has it. When the fetch stage fails, \<open>fetchCityWeather\<close> throws the
  error, and \<open>logWeatherForCity\<close> catches it: it writes the error to the console under
  \<open>Failed to fetch weather for <cityCode>:\<close>, after the line \<open>fetchCityWeather\<close> wrote,
  and resolves normally; neither the report nor the summary is written.
\<close>

theorem fetch_failure_is_swallowed:
  "t (BBC_WEATHER_BASE_URL @ template_string (CITIES c)) = Inl e \<Longrightarrow>
   fst (fetchCityWeather t c w) = Inl e
   \<and> fst (logWeatherForCity t c w) = Inr ()
   \<and> console (snd (logWeatherForCity t c w))
       = console (snd (fetchCityWeather t c w))
         @ [Console_error_value (''Failed to fetch weather for '' @ c @ '':'') e]
   \<and> filter is_console_log (console (snd (logWeatherForCity t c w)))
       = filter is_console_log (console w)"
  by (simp add: logWeatherForCity_fetch_fails fetchCityWeather_fails console_write_def
      handleError_no_log)

theorem fetch_failure_is_swallowed_witness:
  "refusing (BBC_WEATHER_BASE_URL @ template_string (CITIES ''london''))
     = Inl (AxiosError ''connect ECONNREFUSED'')
   \<and> logWeatherForCity refusing ''london'' initial_world
       = (Inr (),
          \<lparr>requests = [''https://www.bbc.com/weather/2643743''],
           console =
             [Console_error ''Network Error:'' ''connect ECONNREFUSED'',
              Console_error_value ''Failed to fetch weather for london:''
                (AxiosError ''connect ECONNREFUSED'')]\<rparr>)"
  using fetch_failure_is_swallowed [of refusing "''london''"
      "AxiosError ''connect ECONNREFUSED''" initial_world]
  by (simp add: refusing_def initial_world_def logWeatherForCity_fetch_fails handleError_def
      console_write_def CITIES_def BBC_WEATHER_BASE_URL_def template_string_def)

text \<open>
  C7 as stated fails: with a transport that refuses the connection, the fetch stage
  throws, and \<open>logWeatherForCity\<close> resolves all the same, so its caller sees no error.
\<close>

theorem fetch_failure_not_surfaced:
  "fst (fetchCityWeather refusing ''london'' initial_world)
     = Inl (AxiosError ''connect ECONNREFUSED'')
   \<and> fst (logWeatherForCity refusing ''london'' initial_world) = Inr ()"
  by (simp add: logWeatherForCity_def logWeatherForCity_try_def fetchCityWeather_def
      axios_get_def refusing_def Let_def)

section \<open>The two implementations\<close>

text \<open>
  C8. On every loaded page, the city and the \<open>weekList\<close> that \<open>getCairoWeather\<close> computes
  are the city and the \<open>weekList\<close> of \<open>parseWeatherData\<close> on the same page, entry by entry
  and field by field; and whenever \<open>getCairoWeather\<close> resolves to a report, it is that of
  \<open>parseWeatherData\<close> on the page the transport served.
\<close>

theorem duplicate_extraction_agrees:
  "getCairoWeather_details doc =
     \<lparr>details_city = Some (city (parseWeatherData doc)),
      details_weekList = weekList (parseWeatherData doc)\<rparr>
   \<and> (fst (getCairoWeather t w) = Some d \<longrightarrow>
        (\<exists>data. t (urlBBC @ ''292968'') = Inr data
           \<and> details_city d = Some (city (parseWeatherData data))
           \<and> details_weekList d = weekList (parseWeatherData data)))"
proof -
  have "\<exists>data. t (urlBBC @ ''292968'') = Inr data
           \<and> details_city d = Some (city (parseWeatherData data))
           \<and> details_weekList d = weekList (parseWeatherData data)"
    if "fst (getCairoWeather t w) = Some d"
    using getCairoWeather_Some [OF that] by (auto simp: getCairoWeather_details_eq)
  then show ?thesis using getCairoWeather_details_eq [of doc] by auto
qed

theorem duplicate_extraction_agrees_witness:
  "fst (getCairoWeather (serving london_page) initial_world)
     = Some \<lparr>details_city = Some (u16 ''London''),
             details_weekList = weekList (parseWeatherData london_page)\<rparr>
   \<and> (\<exists>data. serving london_page (urlBBC @ ''292968'') = Inr data
         \<and> Some (u16 ''London'') = Some (city (parseWeatherData data))
         \<and> weekList (parseWeatherData london_page) = weekList (parseWeatherData data))"
proof -
  have run: "fst (getCairoWeather (serving london_page) initial_world)
     = Some \<lparr>details_city = Some (u16 ''London''),
             details_weekList = weekList (parseWeatherData london_page)\<rparr>"
    by (simp add: getCairoWeather_def getCairoWeather_try_def axios_get_def serving_def
        getCairoWeather_details_eq london_city london_weekList js_index_def Let_def)
  from duplicate_extraction_agrees [of london_page "serving london_page" initial_world
      "\<lparr>details_city = Some (u16 ''London''),
        details_weekList = weekList (parseWeatherData london_page)\<rparr>"] run
  show ?thesis by auto
qed

section \<open>A page without day items\<close>

text \<open>
  C10. When the page has no day items, the extracted \<open>weekList\<close> is empty and the read
  of its first entry is \<open>undefined\<close>. In \<open>logWeatherForCity\<close> the report is written, the
  access to \<open>firstDay.shortForecast\<close> throws a type error, the \<open>catch\<close> writes it to the
  console, and the promise resolves; the promise of \<open>logWeatherForCity\<close> resolves on
  every input. In \<open>getCairoWeather\<close> the access to \<open>details.weekList[0].highTemp\<close> throws,
  the \<open>catch\<close> writes the error, and the function resolves to \<open>undefined\<close>.
\<close>

theorem empty_forecast_is_swallowed:
  "(dayCarousel data = [] \<longrightarrow> weekList (parseWeatherData data) = [])
   \<and> (dayCarousel data = [] \<and> t (BBC_WEATHER_BASE_URL @ template_string (CITIES c)) = Inr data
        \<longrightarrow> fst (fetchCityWeather t c w) = Inr (parseWeatherData data)
          \<and> fst (logWeatherForCity_try t c w)
              = Inl (TypeError ''Cannot read properties of undefined (reading shortForecast)'')
          \<and> logWeatherForCity t c w =
              (Inr (),
               w\<lparr>requests := requests w @ [BBC_WEATHER_BASE_URL @ template_string (CITIES c)],
                 console := console w @
                   [Console_log_report (parseWeatherData data),
                    Console_error_value (''Failed to fetch weather for '' @ c @ '':'')
                      (TypeError
                        ''Cannot read properties of undefined (reading shortForecast)'')]\<rparr>))
   \<and> fst (logWeatherForCity t' c' w') = Inr ()
   \<and> (dayCarousel data = [] \<and> t (urlBBC @ ''292968'') = Inr data
        \<longrightarrow> fst (getCairoWeather_try t w)
              = Inl (TypeError ''Cannot read properties of undefined (reading highTemp)'')
          \<and> getCairoWeather t w =
              (None,
               w\<lparr>requests := requests w @ [urlBBC @ ''292968''],
                 console := console w @
                   [Console_error_value ''ERROR''
                      (TypeError ''Cannot read properties of undefined (reading highTemp)'')]\<rparr>))"
proof -
  have 1: "weekList (parseWeatherData data) = []" if "dayCarousel data = []"
    using that by (rule empty_carousel_weekList)
  have 2: "fst (fetchCityWeather t c w) = Inr (parseWeatherData data)
          \<and> fst (logWeatherForCity_try t c w)
              = Inl (TypeError ''Cannot read properties of undefined (reading shortForecast)'')
          \<and> logWeatherForCity t c w =
              (Inr (),
               w\<lparr>requests := requests w @ [BBC_WEATHER_BASE_URL @ template_string (CITIES c)],
                 console := console w @
                   [Console_log_report (parseWeatherData data),
                    Console_error_value (''Failed to fetch weather for '' @ c @ '':'')
                      (TypeError
                        ''Cannot read properties of undefined (reading shortForecast)'')]\<rparr>)"
    if "dayCarousel data = []" "t (BBC_WEATHER_BASE_URL @ template_string (CITIES c)) = Inr data"
    using 1 [OF that(1)] fetchCityWeather_succeeds [of t c data w] that(2)
    by (simp add: logWeatherForCity_def logWeatherForCity_try_def js_index_def
        console_write_def Let_def)
  have 3: "fst (logWeatherForCity t' c' w') = Inr ()"
    by (rule logWeatherForCity_resolves)
  have 4: "fst (getCairoWeather_try t w)
              = Inl (TypeError ''Cannot read properties of undefined (reading highTemp)'')
          \<and> getCairoWeather t w =
              (None,
               w\<lparr>requests := requests w @ [urlBBC @ ''292968''],
                 console := console w @
                   [Console_error_value ''ERROR''
                      (TypeError ''Cannot read properties of undefined (reading highTemp)'')]\<rparr>)"
    if "dayCarousel data = []" "t (urlBBC @ ''292968'') = Inr data"
    using 1 [OF that(1)] that(2)
    by (simp add: getCairoWeather_def getCairoWeather_try_def axios_get_def
        getCairoWeather_details_eq js_index_def console_write_def Let_def CITIES_def
        template_string_def)
  from 1 2 3 4 show ?thesis by blast
qed

theorem empty_forecast_is_swallowed_witness:
  "dayCarousel brasilia_page = []
   \<and> serving brasilia_page (BBC_WEATHER_BASE_URL @ template_string (CITIES ''brasilia''))
       = Inr brasilia_page
   \<and> serving brasilia_page (urlBBC @ ''292968'') = Inr brasilia_page
   \<and> weekList (parseWeatherData brasilia_page) = []
   \<and> logWeatherForCity (serving brasilia_page) ''brasilia'' initial_world =
        (Inr (),
         \<lparr>requests = [''https://www.bbc.com/weather/3469058''],
          console =
            [Console_log_report \<lparr>city = u16 ''Brasilia'', weekList = []\<rparr>,
             Console_error_value ''Failed to fetch weather for brasilia:''
               (TypeError ''Cannot read properties of undefined (reading shortForecast)'')]\<rparr>)
   \<and> getCairoWeather (serving brasilia_page) initial_world =
        (None,
         \<lparr>requests = [''https://www.bbc.com/weather/292968''],
          console =
            [Console_error_value ''ERROR''
               (TypeError ''Cannot read properties of undefined (reading highTemp)'')]\<rparr>)"
proof -
  have page: "parseWeatherData brasilia_page = \<lparr>city = u16 ''Brasilia'', weekList = []\<rparr>"
    by (simp add: parseWeatherData_def extractCityName_first_segment extractWeeklyForecast_eq
        brasilia_page_def cheerio_text_def js_trim_def js_whitespace_def js_split_def u16_def)
  have e: "dayCarousel brasilia_page = []" by (simp add: brasilia_page_def)
  have s1: "serving brasilia_page (BBC_WEATHER_BASE_URL @ template_string (CITIES ''brasilia''))
       = Inr brasilia_page" by (simp add: serving_def)
  have s2: "serving brasilia_page (urlBBC @ ''292968'') = Inr brasilia_page"
    by (simp add: serving_def)
  from empty_forecast_is_swallowed [of brasilia_page "serving brasilia_page" "''brasilia''"
      initial_world "serving brasilia_page" "''brasilia''" initial_world] e s1 s2
  show ?thesis
    by (simp add: page initial_world_def CITIES_def BBC_WEATHER_BASE_URL_def urlBBC_def
        template_string_def)
qed

end
